theory Spec2Isabelle
  imports Complex_Main
begin

section \<open>Python values used by the dataset module\<close>

text \<open>
  The exceptions that the module raises itself or lets through from the libraries it
  calls.  \<open>KafkaError\<close> is the class that the module catches; it carries the value
  of \<open>e.code()\<close>, which is an integer in \<open>confluent_kafka\<close> (the code of
  \<open>_MAX_POLL_EXCEEDED\<close> is \<open>- 147\<close>).  \<open>KafkaException\<close> is the class that the
  methods of the client raise; it is not a \<open>KafkaError\<close> and carries the code of the
  error it wraps.
\<close>

datatype exn =
    ValueError string
  | KafkaError int
  | KafkaException int
  | UnicodeDecodeError
  | TypeError
  | ValidationError
  | IndexError

text \<open>
  The two sides of the comparison \<open>e.code() == "_MAX_POLL_EXCEEDED"\<close>: in Python an
  integer and a string are never equal.
\<close>

datatype pyval = PyInt int | PyStr string

text \<open>Truthiness of an \<open>Optional[str]\<close>: \<open>None\<close> and the empty string are falsy.\<close>

fun truthy :: "string option \<Rightarrow> bool" where
  "truthy None = False"
| "truthy (Some s) = (s \<noteq> [])"

text \<open>Formatting of an \<open>Optional[str]\<close> inside an f-string.\<close>

fun fmt :: "string option \<Rightarrow> string" where
  "fmt None = ''None''"
| "fmt (Some s) = s"

text \<open>
  JSON values, the payloads of the real consumer and producer.  The representation of
  numbers is a type parameter.
\<close>

datatype 'n json =
    JNull
  | JBool bool
  | JNum 'n
  | JStr string
  | JArr "'n json list"
  | JObj "(string \<times> 'n json) list"

section \<open>Construction of consumers and producers\<close>

text \<open>
  A Kafka client configuration is a dictionary from option names to values.
  \<open>DEFAULT_KAFKA_CONFIG\<close> of \<open>aineko.config\<close> is a parameter of the constructors;
  the record lists the keys that the module reads.
\<close>

type_synonym config = "string \<rightharpoonup> string"

record kafka_config =
  CONSUMER_CONFIG :: config
  CONSUMER_TIMEOUT :: "real option"
  PRODUCER_CONFIG :: config
  PRODUCER_OVERRIDABLES :: "string list"

fun override :: "config \<Rightarrow> (string \<times> string) list \<Rightarrow> config" where
  "override cfg [] = cfg"
| "override cfg ((param, v) # rest) = override (cfg(param \<mapsto> v)) rest"

record DatasetConsumer =
  pipeline_name :: string
  kafka_config :: kafka_config
  prefix :: "string option"
  has_pipeline_prefix :: bool
  cached :: bool
  name :: string
  topic_name :: string
  consumer_config :: config
  subscription :: "string list"

text \<open>
  \<open>DatasetConsumer.__init__\<close>.  \<open>params\<close> is \<open>dataset_config.params\<close>; the field
  \<open>consumer_config\<close> is the configuration handed to \<open>Consumer(...)\<close> and the field
  \<open>subscription\<close> the argument of \<open>self.consumer.subscribe\<close>.
\<close>

definition DatasetConsumer_init ::
  "kafka_config \<Rightarrow> string \<Rightarrow> string \<Rightarrow> string \<Rightarrow> (string \<times> string) list option \<Rightarrow>
   string option \<Rightarrow> string option \<Rightarrow> bool \<Rightarrow> DatasetConsumer" where
  "DatasetConsumer_init DEFAULT_KAFKA_CONFIG dataset_name node_name pipeline params
      bootstrap_servers pfx has_pipeline =
    (let cfg0 = CONSUMER_CONFIG DEFAULT_KAFKA_CONFIG;
         cfg1 = (if truthy bootstrap_servers
                 then cfg0(''bootstrap.servers'' \<mapsto> fmt bootstrap_servers)
                 else cfg0);
         cfg2 = override cfg1 (case params of None \<Rightarrow> [] | Some ps \<Rightarrow> ps);
         topic = (if has_pipeline then pipeline @ ''.'' @ dataset_name else dataset_name)
     in if truthy pfx
        then \<lparr> DatasetConsumer.pipeline_name = pipeline,
               DatasetConsumer.kafka_config = DEFAULT_KAFKA_CONFIG,
               DatasetConsumer.prefix = pfx,
               DatasetConsumer.has_pipeline_prefix = has_pipeline,
               DatasetConsumer.cached = False,
               DatasetConsumer.name = fmt pfx @ ''.'' @ pipeline @ ''.'' @ node_name,
               DatasetConsumer.topic_name = topic,
               DatasetConsumer.consumer_config =
                 cfg2(''group.id'' \<mapsto> fmt pfx @ ''.'' @ pipeline @ ''.'' @ node_name),
               DatasetConsumer.subscription = [fmt pfx @ ''.'' @ topic] \<rparr>
        else \<lparr> DatasetConsumer.pipeline_name = pipeline,
               DatasetConsumer.kafka_config = DEFAULT_KAFKA_CONFIG,
               DatasetConsumer.prefix = pfx,
               DatasetConsumer.has_pipeline_prefix = has_pipeline,
               DatasetConsumer.cached = False,
               DatasetConsumer.name = pipeline @ ''.'' @ node_name,
               DatasetConsumer.topic_name = topic,
               DatasetConsumer.consumer_config =
                 cfg2(''group.id'' \<mapsto> pipeline @ ''.'' @ node_name),
               DatasetConsumer.subscription = [topic] \<rparr>)"

record DatasetProducer =
  source_pipeline :: string
  dataset :: string
  source_node :: string
  prefix :: "string option"
  has_pipeline_prefix :: bool
  topic_name :: string
  kafka_config :: kafka_config
  producer_config :: config

text \<open>The loop over \<open>PRODUCER_OVERRIDABLES\<close> in \<open>DatasetProducer.__init__\<close>.\<close>

fun override_listed :: "config \<Rightarrow> string list \<Rightarrow> config \<Rightarrow> config" where
  "override_listed cfg [] ps = cfg"
| "override_listed cfg (param # rest) ps =
     (case ps param of
        Some v \<Rightarrow> override_listed (cfg(param \<mapsto> v)) rest ps
      | None \<Rightarrow> override_listed cfg rest ps)"

text \<open>\<open>DatasetProducer.__init__\<close>; \<open>params\<close> is \<open>dataset_config.params\<close>.\<close>

definition DatasetProducer_init ::
  "kafka_config \<Rightarrow> string \<Rightarrow> string \<Rightarrow> string \<Rightarrow> config option \<Rightarrow>
   string option \<Rightarrow> bool \<Rightarrow> DatasetProducer" where
  "DatasetProducer_init DEFAULT_KAFKA_CONFIG dataset_name node_name pipeline params
      pfx has_pipeline =
    (let topic0 = dataset_name;
         topic1 = (if has_pipeline then pipeline @ ''.'' @ topic0 else topic0);
         topic2 = (if truthy pfx then fmt pfx @ ''.'' @ topic1 else topic1);
         cfg0 = PRODUCER_CONFIG DEFAULT_KAFKA_CONFIG
     in \<lparr> DatasetProducer.source_pipeline = pipeline,
          DatasetProducer.dataset = dataset_name,
          DatasetProducer.source_node = node_name,
          DatasetProducer.prefix = pfx,
          DatasetProducer.has_pipeline_prefix = has_pipeline,
          DatasetProducer.topic_name = topic2,
          DatasetProducer.kafka_config = DEFAULT_KAFKA_CONFIG,
          DatasetProducer.producer_config =
            (case params of
               None \<Rightarrow> cfg0
             | Some ps \<Rightarrow>
                 if ps = Map.empty then cfg0
                 else override_listed cfg0 (PRODUCER_OVERRIDABLES DEFAULT_KAFKA_CONFIG) ps) \<rparr>)"

text \<open>The physical topic name \<open>[prefix.][pipeline.]dataset\<close> of the specification.\<close>

definition physical_topic :: "string \<Rightarrow> string \<Rightarrow> string option \<Rightarrow> bool \<Rightarrow> string" where
  "physical_topic dataset_name pipeline pfx has_pipeline =
     (if truthy pfx then fmt pfx @ ''.'' else [])
     @ (if has_pipeline then pipeline @ ''.'' else [])
     @ dataset_name"

section \<open>The message envelope\<close>

text \<open>
  Modelled from the spec: the class \<open>MessageData\<close> of \<open>aineko.models.base\<close> is
  not among the sources.  Following the specification, an envelope has the fields
  \<open>timestamp\<close>, \<open>dataset\<close>, \<open>source_node\<close>, \<open>source_pipeline\<close> and \<open>message\<close>;
  the timestamp is the instant of construction unless one is given, the three
  provenance fields are strings and the payload is arbitrary.
\<close>

record 'p MessageData =
  timestamp :: string
  dataset :: string
  source_node :: string
  source_pipeline :: string
  message :: 'p

text \<open>
  Modelled from the spec: \<open>model_dump(mode="json")\<close>, the envelope as an object with
  the keys \<open>timestamp\<close>, \<open>dataset\<close>, \<open>source_node\<close>, \<open>source_pipeline\<close>, \<open>message\<close>.
\<close>

definition model_dump :: "'n json MessageData \<Rightarrow> 'n json" where
  "model_dump m =
     JObj [(''timestamp'', JStr (MessageData.timestamp m)),
           (''dataset'', JStr (MessageData.dataset m)),
           (''source_node'', JStr (MessageData.source_node m)),
           (''source_pipeline'', JStr (MessageData.source_pipeline m)),
           (''message'', MessageData.message m)]"

text \<open>
  Modelled from the spec: \<open>MessageData(**raw_message)\<close>, the validation of the
  envelope shape.  Unpacking anything but an object raises \<open>TypeError\<close>; an object
  that lacks a required key, or holds a non-string where a string is required, fails
  validation.  \<open>now\<close> is the reading of the clock, used when no timestamp is given.
\<close>

definition MessageData_of :: "string \<Rightarrow> 'n json \<Rightarrow> exn + 'n json MessageData" where
  "MessageData_of now raw =
     (case raw of
        JObj kw \<Rightarrow>
          (case (map_of kw ''dataset'', map_of kw ''source_node'',
                 map_of kw ''source_pipeline'', map_of kw ''message'') of
             (Some (JStr d), Some (JStr n), Some (JStr p), Some m) \<Rightarrow>
               (case map_of kw ''timestamp'' of
                  None \<Rightarrow>
                    Inr \<lparr> MessageData.timestamp = now, MessageData.dataset = d,
                          MessageData.source_node = n, MessageData.source_pipeline = p,
                          MessageData.message = m \<rparr>
                | Some (JStr t) \<Rightarrow>
                    Inr \<lparr> MessageData.timestamp = t, MessageData.dataset = d,
                          MessageData.source_node = n, MessageData.source_pipeline = p,
                          MessageData.message = m \<rparr>
                | Some _ \<Rightarrow> Inl ValidationError)
           | _ \<Rightarrow> Inl ValidationError)
      | _ \<Rightarrow> Inl TypeError)"

section \<open>The libraries\<close>

text \<open>
  The functions of the Python library that the module calls, as parameters: the JSON
  codec (\<open>json_loads\<close> is \<open>None\<close> where \<open>json.loads\<close> raises \<open>JSONDecodeError\<close>),
  the UTF-8 codec (\<open>decode_utf8\<close> is \<open>None\<close> where \<open>bytes.decode\<close> raises) and
  \<open>==\<close> on payloads.  \<open>'t\<close> is the type of text on the wire and \<open>'b\<close> that of bytes.
\<close>

record ('n, 't, 'b) pylib =
  json_dumps :: "'n json \<Rightarrow> 't"
  json_loads :: "'t \<Rightarrow> 'n json option"
  encode_utf8 :: "'t \<Rightarrow> 'b"
  decode_utf8 :: "'b \<Rightarrow> 't option"
  py_eq :: "'n json \<Rightarrow> 'n json \<Rightarrow> bool"

text \<open>
  A record polled from the broker (\<open>confluent_kafka.Message\<close>): \<open>value()\<close> is absent,
  bytes, text or an already structured value, \<open>error()\<close> is absent or an error,
  given by its code.
\<close>

datatype ('n, 't, 'b) payload = Bytes 'b | Str 't | Obj "'n json"

record ('n, 't, 'b) Message =
  msg_value :: "('n, 't, 'b) payload option"
  msg_error :: "int option"

record TopicPartition =
  tp_topic :: string
  tp_partition :: int
  offset :: int

text \<open>
  The handle \<open>self.consumer\<close>: the operations of \<open>confluent_kafka.Consumer\<close> that the
  module calls, each a function of the state \<open>'s\<close> of the world outside (broker,
  client library, clock) that returns a value or raises, and the next state.
  \<open>get_watermark_offsets\<close> takes the partition and the flag \<open>cached\<close>.
  \<open>OFFSET_INVALID\<close> is the library's constant.
\<close>

record ('s, 'n, 't, 'b) Consumer =
  poll :: "real option \<Rightarrow> 's \<Rightarrow> (exn + ('n, 't, 'b) Message option) \<times> 's"
  assignment :: "'s \<Rightarrow> (exn + TopicPartition list) \<times> 's"
  get_watermark_offsets :: "TopicPartition \<Rightarrow> bool \<Rightarrow> 's \<Rightarrow> (exn + int \<times> int) \<times> 's"
  assign :: "TopicPartition list \<Rightarrow> 's \<Rightarrow> (exn + unit) \<times> 's"
  OFFSET_INVALID :: int
  clock :: "'s \<Rightarrow> string"

text \<open>The handle \<open>self.producer\<close> (\<open>confluent_kafka.Producer\<close>).\<close>

record ('s, 'b) Producer =
  producer_poll :: "real \<Rightarrow> 's \<Rightarrow> (exn + unit) \<times> 's"
  producer_produce :: "string \<Rightarrow> 'b option \<Rightarrow> 'b \<Rightarrow> 's \<Rightarrow> (exn + unit) \<times> 's"
  producer_flush :: "'s \<Rightarrow> (exn + unit) \<times> 's"
  producer_clock :: "'s \<Rightarrow> string"

section \<open>The consumer\<close>

text \<open>
  \<open>DatasetConsumer._validate_message\<close>.  \<open>wrap\<close> is the last statement,
  \<open>parse_str\<close> the branch for text.
\<close>

definition wrap :: "string \<Rightarrow> 'n json \<Rightarrow> exn + 'n json MessageData option" where
  "wrap now raw =
     (case MessageData_of now raw of Inl e \<Rightarrow> Inl e | Inr m \<Rightarrow> Inr (Some m))"

definition parse_str ::
  "('n, 't, 'b) pylib \<Rightarrow> string \<Rightarrow> 't \<Rightarrow> exn + 'n json MessageData option" where
  "parse_str L now txt =
     (case json_loads L txt of None \<Rightarrow> Inr None | Some raw \<Rightarrow> wrap now raw)"

definition validate_message ::
  "('n, 't, 'b) pylib \<Rightarrow> string \<Rightarrow> ('n, 't, 'b) Message option \<Rightarrow>
   exn + 'n json MessageData option" where
  "validate_message L now raw_message =
     (case raw_message of
        None \<Rightarrow> Inr None
      | Some m \<Rightarrow>
          (case msg_value m of
             None \<Rightarrow> Inr None
           | Some v \<Rightarrow>
               (case msg_error m of
                  Some err \<Rightarrow> Inr None
                | None \<Rightarrow>
                    (case v of
                       Bytes b \<Rightarrow>
                         (case decode_utf8 L b of
                            None \<Rightarrow> Inl UnicodeDecodeError
                          | Some txt \<Rightarrow> parse_str L now txt)
                     | Str txt \<Rightarrow> parse_str L now txt
                     | Obj raw \<Rightarrow> wrap now raw))))"

text \<open>
  \<open>DatasetConsumer._update_offset_to_latest\<close>.  \<open>await_assignment\<close> is the loop that
  polls until partitions are assigned; it is \<open>None\<close> when the loop never ends.
  \<open>seek_partitions\<close> is the loop over the partitions.
\<close>

partial_function (option) await_assignment ::
  "('s, 'n, 't, 'b) Consumer \<Rightarrow> TopicPartition list \<Rightarrow> 's \<Rightarrow>
   ((exn + TopicPartition list) \<times> 's) option" where
  "await_assignment K partitions s =
     (if partitions = [] then
        (case poll K (Some 0) s of
           (Inl e, s1) \<Rightarrow> Some (Inl e, s1)
         | (Inr _, s1) \<Rightarrow>
             (case assignment K s1 of
                (Inl e, s2) \<Rightarrow> Some (Inl e, s2)
              | (Inr partitions', s2) \<Rightarrow> await_assignment K partitions' s2))
      else Some (Inr partitions, s))"

fun seek_partitions ::
  "('s, 'n, 't, 'b) Consumer \<Rightarrow> bool \<Rightarrow> TopicPartition list \<Rightarrow> 's \<Rightarrow>
   (exn + TopicPartition list) \<times> 's" where
  "seek_partitions K c [] s = (Inr [], s)"
| "seek_partitions K c (tp # rest) s =
     (case get_watermark_offsets K tp c s of
        (Inl e, s1) \<Rightarrow> (Inl e, s1)
      | (Inr (low_offset, high_offset), s1) \<Rightarrow>
          (let tp' =
                 (if high_offset = OFFSET_INVALID K
                  then tp\<lparr>offset := - 1\<rparr>
                  else tp\<lparr>offset := high_offset - 1\<rparr>)
           in case seek_partitions K c rest s1 of
                (Inl e, s2) \<Rightarrow> (Inl e, s2)
              | (Inr rest', s2) \<Rightarrow> (Inr (tp' # rest'), s2)))"

definition update_offset_to_latest ::
  "('s, 'n, 't, 'b) Consumer \<Rightarrow> DatasetConsumer \<Rightarrow> 's \<Rightarrow> ((exn + unit) \<times> 's) option" where
  "update_offset_to_latest K self s =
     (case assignment K s of
        (Inl e, s1) \<Rightarrow> Some (Inl e, s1)
      | (Inr partitions, s1) \<Rightarrow>
          (case await_assignment K partitions s1 of
             None \<Rightarrow> None
           | Some (Inl e, s2) \<Rightarrow> Some (Inl e, s2)
           | Some (Inr partitions', s2) \<Rightarrow>
               (case seek_partitions K (cached self) partitions' s2 of
                  (Inl e, s3) \<Rightarrow> Some (Inl e, s3)
                | (Inr sought, s3) \<Rightarrow> Some (assign K sought s3))))"

text \<open>\<open>timeout or self.kafka_config.get("CONSUMER_TIMEOUT")\<close>.\<close>

definition timeout_or :: "real option \<Rightarrow> real option \<Rightarrow> real option" where
  "timeout_or timeout dflt =
     (case timeout of None \<Rightarrow> dflt | Some t \<Rightarrow> if t = 0 then dflt else Some t)"

text \<open>
  \<open>DatasetConsumer.consume\<close>.  The result is the value returned or the exception
  raised, the consumer object and the state of the world afterwards; \<open>None\<close> when
  the call never returns.
\<close>

definition consume ::
  "('n, 't, 'b) pylib \<Rightarrow> ('s, 'n, 't, 'b) Consumer \<Rightarrow> string \<Rightarrow> real option \<Rightarrow>
   DatasetConsumer \<Rightarrow> 's \<Rightarrow>
   ((exn + 'n json MessageData option) \<times> DatasetConsumer \<times> 's) option" where
  "consume L K how timeout self s =
     (if how \<notin> set [''next'', ''last'']
      then Some (Inl (ValueError (''Invalid how: '' @ how @ ''. Expected `next` or `last`.'')),
                 self, s)
      else
        (let timeout' = timeout_or timeout (CONSUMER_TIMEOUT (DatasetConsumer.kafka_config self))
         in if how = ''next'' then
              (case poll K timeout' s of
                 (Inl e, s1) \<Rightarrow> Some (Inl e, self, s1)
               | (Inr wrapped_message, s1) \<Rightarrow>
                   Some (validate_message L (clock K s1) wrapped_message,
                         self\<lparr>cached := True\<rparr>, s1))
            else
              (case update_offset_to_latest K self s of
                 None \<Rightarrow> None
               | Some (Inl (KafkaError code), s1) \<Rightarrow> Some (Inr None, self, s1)
               | Some (Inl e, s1) \<Rightarrow> Some (Inl e, self, s1)
               | Some (Inr _, s1) \<Rightarrow>
                   (case poll K timeout' s1 of
                      (Inl e, s2) \<Rightarrow> Some (Inl e, self, s2)
                    | (Inr wrapped_message, s2) \<Rightarrow>
                        Some (validate_message L (clock K s2) wrapped_message,
                              self\<lparr>cached := True\<rparr>, s2)))))"

text \<open>\<open>DatasetConsumer._consume_message\<close>: \<open>None\<close> when the loop never ends.\<close>

partial_function (option) consume_message ::
  "('n, 't, 'b) pylib \<Rightarrow> ('s, 'n, 't, 'b) Consumer \<Rightarrow> string \<Rightarrow> real option \<Rightarrow>
   DatasetConsumer \<Rightarrow> 's \<Rightarrow> ((exn + 'n json MessageData) \<times> DatasetConsumer \<times> 's) option" where
  "consume_message L K how timeout self s =
     (case consume L K how timeout self s of
        None \<Rightarrow> None
      | Some (Inr (Some m), self1, s1) \<Rightarrow> Some (Inr m, self1, s1)
      | Some (Inr None, self1, s1) \<Rightarrow> consume_message L K how timeout self1 s1
      | Some (Inl (KafkaError code), self1, s1) \<Rightarrow>
          if PyInt code = PyStr ''_MAX_POLL_EXCEEDED''
          then consume_message L K how timeout self1 s1
          else Some (Inl (KafkaError code), self1, s1)
      | Some (Inl e, self1, s1) \<Rightarrow> Some (Inl e, self1, s1))"


definition DatasetConsumer_last ::
  "('n, 't, 'b) pylib \<Rightarrow> ('s, 'n, 't, 'b) Consumer \<Rightarrow> real \<Rightarrow> DatasetConsumer \<Rightarrow> 's \<Rightarrow>
   ((exn + 'n json MessageData) \<times> DatasetConsumer \<times> 's) option" where
  "DatasetConsumer_last L K timeout self s =
     (if timeout \<le> 0
      then Some (Inl (ValueError ''Timeout must be > 0 when consuming the last message.''),
                 self, s)
      else consume_message L K ''last'' (Some timeout) self s)"

text \<open>
  \<open>DatasetConsumer.consume_all\<close>: the loop with the list \<open>messages\<close> collected so
  far, and the method, which starts it with the empty list.
\<close>

partial_function (option) consume_all_loop ::
  "('n, 't, 'b) pylib \<Rightarrow> ('s, 'n, 't, 'b) Consumer \<Rightarrow> 'n json \<Rightarrow>
   'n json MessageData list \<Rightarrow> DatasetConsumer \<Rightarrow> 's \<Rightarrow>
   ((exn + 'n json MessageData list) \<times> DatasetConsumer \<times> 's) option" where
  "consume_all_loop L K end_message messages self s =
     (case consume L K ''next'' None self s of
        None \<Rightarrow> None
      | Some (Inl e, self1, s1) \<Rightarrow> Some (Inl e, self1, s1)
      | Some (Inr None, self1, s1) \<Rightarrow> consume_all_loop L K end_message messages self1 s1
      | Some (Inr (Some wrapped_message), self1, s1) \<Rightarrow>
          if py_eq L (MessageData.message wrapped_message) end_message
          then Some (Inr messages, self1, s1)
          else consume_all_loop L K end_message (messages @ [wrapped_message]) self1 s1)"

definition consume_all ::
  "('n, 't, 'b) pylib \<Rightarrow> ('s, 'n, 't, 'b) Consumer \<Rightarrow> 'n json \<Rightarrow> DatasetConsumer \<Rightarrow> 's \<Rightarrow>
   ((exn + 'n json MessageData list) \<times> DatasetConsumer \<times> 's) option" where
  "consume_all L K end_message self s = consume_all_loop L K end_message [] self s"

section \<open>The producer\<close>

text \<open>
  \<open>DatasetProducer.produce\<close>.  \<open>wire_value\<close> is the argument \<open>value\<close> of
  \<open>self.producer.produce\<close>: the envelope, dumped, serialised and encoded.
\<close>

definition wire_value ::
  "('n, 't, 'b) pylib \<Rightarrow> string \<Rightarrow> DatasetProducer \<Rightarrow> 'n json \<Rightarrow> 'b" where
  "wire_value L now self payload =
     encode_utf8 L (json_dumps L (model_dump
       \<lparr> MessageData.timestamp = now,
         MessageData.dataset = DatasetProducer.dataset self,
         MessageData.source_node = DatasetProducer.source_node self,
         MessageData.source_pipeline = DatasetProducer.source_pipeline self,
         MessageData.message = payload \<rparr>))"

definition produce ::
  "('n, 't, 'b) pylib \<Rightarrow> ('s, 'b) Producer \<Rightarrow> DatasetProducer \<Rightarrow> 'n json \<Rightarrow> 't option \<Rightarrow>
   's \<Rightarrow> (exn + unit) \<times> 's" where
  "produce L K self payload key s =
     (let v = wire_value L (producer_clock K s) self payload
      in case producer_poll K 0 s of
           (Inl e, s1) \<Rightarrow> (Inl e, s1)
         | (Inr _, s1) \<Rightarrow>
             (let key_bytes = (case key of None \<Rightarrow> None | Some k \<Rightarrow> Some (encode_utf8 L k))
              in case producer_produce K (DatasetProducer.topic_name self) key_bytes v s1 of
                   (Inl e, s2) \<Rightarrow> (Inl e, s2)
                 | (Inr _, s2) \<Rightarrow> producer_flush K s2))"

section \<open>The fake consumer\<close>

record 'p FakeDatasetConsumer =
  dataset_name :: string
  node_name :: string
  source_pipeline :: string
  values' :: "'p list"
  empty :: bool

definition FakeDatasetConsumer_init ::
  "string \<Rightarrow> string \<Rightarrow> string \<Rightarrow> 'p list \<Rightarrow> 'p FakeDatasetConsumer" where
  "FakeDatasetConsumer_init dataset_name' node_name' source_pipeline' vs =
     \<lparr> FakeDatasetConsumer.dataset_name = dataset_name',
       FakeDatasetConsumer.node_name = node_name',
       FakeDatasetConsumer.source_pipeline = source_pipeline',
       FakeDatasetConsumer.values' = vs,
       FakeDatasetConsumer.empty = False \<rparr>"

text \<open>
  What \<open>FakeDatasetConsumer.consume\<close> returns: an envelope in mode \<open>next\<close>, an element
  of \<open>values\<close> (the field \<open>values'\<close> here) as it is in mode \<open>last\<close>.
\<close>

datatype 'p returned = Envelope "'p MessageData" | Raw 'p

text \<open>
  \<open>FakeDatasetConsumer.consume\<close>; \<open>now\<close> is the reading of the clock when the
  envelope is built.
\<close>

definition FakeDatasetConsumer_consume ::
  "string \<Rightarrow> string \<Rightarrow> real option \<Rightarrow> 'p FakeDatasetConsumer \<Rightarrow>
   (exn + 'p returned option) \<times> 'p FakeDatasetConsumer" where
  "FakeDatasetConsumer_consume now how timeout self =
     (if how \<notin> set [''next'', ''last'']
      then (Inl (ValueError (''Invalid how: '' @ how @ ''. Expected 'next' or 'last'.'')), self)
      else
        (let rest_of_body =
               (if how = ''last'' \<and> FakeDatasetConsumer.values' self \<noteq> []
                then (Inr (Some (Raw (last (FakeDatasetConsumer.values' self)))), self)
                else (Inr None, self))
         in if how = ''next'' then
              (let remaining = length (FakeDatasetConsumer.values' self)
               in if remaining > 0 then
                    (let self1 = (if remaining = 1 then self\<lparr>empty := True\<rparr> else self)
                     in case FakeDatasetConsumer.values' self1 of
                          [] \<Rightarrow> (Inl IndexError, self1)
                        | v # vs \<Rightarrow>
                            (Inr (Some (Envelope
                               \<lparr> MessageData.timestamp = now,
                                 MessageData.dataset = FakeDatasetConsumer.dataset_name self1,
                                 MessageData.source_node = FakeDatasetConsumer.node_name self1,
                                 MessageData.source_pipeline =
                                   FakeDatasetConsumer.source_pipeline self1,
                                 MessageData.message = v \<rparr>)),
                             self1\<lparr>values' := vs\<rparr>))
                  else rest_of_body)
            else rest_of_body))"

text \<open>\<open>FakeDatasetConsumer.next\<close> and \<open>FakeDatasetConsumer.last\<close>.\<close>

definition FakeDatasetConsumer_next ::
  "string \<Rightarrow> 'p FakeDatasetConsumer \<Rightarrow> (exn + 'p returned option) \<times> 'p FakeDatasetConsumer" where
  "FakeDatasetConsumer_next now self = FakeDatasetConsumer_consume now ''next'' None self"

definition FakeDatasetConsumer_last ::
  "string \<Rightarrow> real \<Rightarrow> 'p FakeDatasetConsumer \<Rightarrow>
   (exn + 'p returned option) \<times> 'p FakeDatasetConsumer" where
  "FakeDatasetConsumer_last now timeout self =
     FakeDatasetConsumer_consume now ''last'' (Some timeout) self"

section \<open>Runs of the consumer\<close>

text \<open>
  The results of \<open>n\<close> successive calls of \<open>consume(how="next")\<close>, as long as none
  of them raises: the sequence of messages delivered to the caller, \<open>None\<close> standing
  for a call that returned no message.
\<close>

fun arrivals ::
  "('n, 't, 'b) pylib \<Rightarrow> ('s, 'n, 't, 'b) Consumer \<Rightarrow> nat \<Rightarrow> DatasetConsumer \<Rightarrow> 's \<Rightarrow>
   ((exn + 'n json MessageData option list) \<times> DatasetConsumer \<times> 's) option" where
  "arrivals L K 0 self s = Some (Inr [], self, s)"
| "arrivals L K (Suc n) self s =
     (case consume L K ''next'' None self s of
        None \<Rightarrow> None
      | Some (Inl e, self1, s1) \<Rightarrow> Some (Inl e, self1, s1)
      | Some (Inr r, self1, s1) \<Rightarrow>
          (case arrivals L K n self1 s1 of
             None \<Rightarrow> None
           | Some (Inl e, self2, s2) \<Rightarrow> Some (Inl e, self2, s2)
           | Some (Inr rs, self2, s2) \<Rightarrow> Some (Inr (r # rs), self2, s2)))"

text \<open>The messages among the results of a run, in order.\<close>

fun present :: "'a option list \<Rightarrow> 'a list" where
  "present [] = []"
| "present (None # rs) = present rs"
| "present (Some w # rs) = w # present rs"

text \<open>
  The high watermarks that the client reports when it is asked for each partition of
  a list in turn, as long as no call raises.
\<close>

fun read_watermarks ::
  "('s, 'n, 't, 'b) Consumer \<Rightarrow> bool \<Rightarrow> TopicPartition list \<Rightarrow> 's \<Rightarrow>
   (exn + int list) \<times> 's" where
  "read_watermarks K c [] s = (Inr [], s)"
| "read_watermarks K c (tp # rest) s =
     (case get_watermark_offsets K tp c s of
        (Inl e, s1) \<Rightarrow> (Inl e, s1)
      | (Inr (low_offset, high_offset), s1) \<Rightarrow>
          (case read_watermarks K c rest s1 of
             (Inl e, s2) \<Rightarrow> (Inl e, s2)
           | (Inr highs, s2) \<Rightarrow> (Inr (high_offset # highs), s2)))"

section \<open>A scripted world\<close>

text \<open>
  A world to run the model in: the client answers each call with the next entry of a
  script and logs the calls of \<open>assign\<close>.  When a script is exhausted, \<open>poll\<close>
  returns no message, \<open>assignment\<close> no partition and \<open>get_watermark_offsets\<close> the
  invalid offset.
\<close>

record ('n, 't, 'b) script =
  polls :: "(exn + ('n, 't, 'b) Message option) list"
  assignments :: "(exn + TopicPartition list) list"
  watermarks :: "(exn + int \<times> int) list"
  assigned :: "TopicPartition list list"

definition scripted :: "(('n, 't, 'b) script, 'n, 't, 'b) Consumer" where
  "scripted =
     \<lparr> poll = (\<lambda>timeout s.
          case polls s of [] \<Rightarrow> (Inr None, s) | r # rs \<Rightarrow> (r, s\<lparr>polls := rs\<rparr>)),
       assignment = (\<lambda>s.
          case assignments s of [] \<Rightarrow> (Inr [], s) | r # rs \<Rightarrow> (r, s\<lparr>assignments := rs\<rparr>)),
       get_watermark_offsets = (\<lambda>tp c s.
          case watermarks s of
            [] \<Rightarrow> (Inr (- 1001, - 1001), s)
          | r # rs \<Rightarrow> (r, s\<lparr>watermarks := rs\<rparr>)),
       assign = (\<lambda>tps s. (Inr (), s\<lparr>assigned := assigned s @ [tps]\<rparr>)),
       OFFSET_INVALID = - 1001,
       clock = (\<lambda>s. ''2024-01-01 00:00:00'') \<rparr>"

text \<open>A producer handle that logs what is published.\<close>

definition recording :: "((string \<times> 'b option \<times> 'b) list, 'b) Producer" where
  "recording =
     \<lparr> producer_poll = (\<lambda>timeout s. (Inr (), s)),
       producer_produce = (\<lambda>topic key v s. (Inr (), s @ [(topic, key, v)])),
       producer_flush = (\<lambda>s. (Inr (), s)),
       producer_clock = (\<lambda>s. ''2024-01-01 00:00:00'') \<rparr>"

text \<open>
  A library in which text and bytes are the JSON value itself: serialising and
  encoding change nothing, parsing and decoding always succeed, and \<open>==\<close> is
  equality.
\<close>

definition plain :: "('n, 'n json, 'n json) pylib" where
  "plain =
     \<lparr> json_dumps = (\<lambda>v. v), json_loads = Some,
       encode_utf8 = (\<lambda>txt. txt), decode_utf8 = Some,
       py_eq = (\<lambda>a b. a = b) \<rparr>"

text \<open>Concrete inputs for runs of the model in the scripted world.\<close>

definition example_config :: kafka_config where
  "example_config =
     \<lparr> CONSUMER_CONFIG = Map.empty, CONSUMER_TIMEOUT = Some 1,
       PRODUCER_CONFIG = Map.empty, PRODUCER_OVERRIDABLES = [] \<rparr>"

definition example_consumer :: DatasetConsumer where
  "example_consumer =
     DatasetConsumer_init example_config ''d'' ''n'' ''p'' None None None True"

definition example_producer :: DatasetProducer where
  "example_producer = DatasetProducer_init example_config ''d'' ''n'' ''p'' None None True"

definition partition0 :: TopicPartition where
  "partition0 = \<lparr> tp_topic = ''p.d'', tp_partition = 0, offset = - 1001 \<rparr>"

definition partition1 :: TopicPartition where
  "partition1 = \<lparr> tp_topic = ''p.d'', tp_partition = 1, offset = - 1001 \<rparr>"

text \<open>
  The envelope that \<open>example_producer\<close> builds around a payload at the time of the
  scripted clock, and the record that carries it.
\<close>

definition envelope_of :: "int json \<Rightarrow> int json MessageData" where
  "envelope_of payload =
     \<lparr> MessageData.timestamp = ''2024-01-01 00:00:00'', MessageData.dataset = ''d'',
       MessageData.source_node = ''n'', MessageData.source_pipeline = ''p'',
       MessageData.message = payload \<rparr>"

definition delivered :: "int json \<Rightarrow> (int, int json, int json) Message" where
  "delivered payload =
     \<lparr> msg_value = Some (Bytes (wire_value plain ''2024-01-01 00:00:00'' example_producer payload)),
       msg_error = None \<rparr>"

definition idle :: "(int, int json, int json) script" where
  "idle = \<lparr> polls = [], assignments = [], watermarks = [], assigned = [] \<rparr>"

section \<open>Evaluation in the scripted world\<close>

text \<open>The definitions that a run in the scripted world unfolds.\<close>

lemmas run_defs = scripted_def plain_def consume_def update_offset_to_latest_def
  await_assignment.simps validate_message_def parse_str_def wrap_def MessageData_of_def
  model_dump_def wire_value_def delivered_def envelope_of_def example_consumer_def
  example_producer_def example_config_def DatasetConsumer_init_def DatasetProducer_init_def
  timeout_or_def idle_def Let_def

section \<open>Topic naming\<close>

text \<open>
  C1.  A consumer and a producer constructed from the same dataset name, pipeline name,
  node name, prefix and pipeline-prefix flag agree on the physical topic: the single
  topic the consumer subscribes to is the producer's \<open>topic_name\<close>, and both are
  \<open>[prefix.][pipeline.]dataset\<close>, the pipeline segment being present exactly when the
  flag is set.
\<close>

theorem consumer_producer_same_topic:
  "DatasetConsumer.subscription (DatasetConsumer_init cfg d n p cparams bs pfx hpp)
     = [DatasetProducer.topic_name (DatasetProducer_init cfg' d n p pparams pfx hpp)]
   \<and> DatasetProducer.topic_name (DatasetProducer_init cfg' d n p pparams pfx hpp)
     = physical_topic d p pfx hpp"
  by (simp add: DatasetConsumer_init_def DatasetProducer_init_def physical_topic_def Let_def)

text \<open>
  C7.  The claim is that the consumer's attribute \<open>topic_name\<close> is the physical topic
  \<open>[prefix.][pipeline.]dataset\<close>.  With the prefix \<open>test\<close>, the pipeline
  \<open>my_pipeline\<close> and the dataset \<open>my_dataset\<close> of the class's own documentation,
  the consumer subscribes to \<open>test.my_pipeline.my_dataset\<close> and the producer's
  \<open>topic_name\<close> is that topic, but the consumer's \<open>topic_name\<close> is
  \<open>my_pipeline.my_dataset\<close>: the prefix segment is missing.
\<close>

theorem consumer_topic_name_without_prefix:
  "DatasetConsumer.topic_name
     (DatasetConsumer_init cfg ''my_dataset'' ''my_node'' ''my_pipeline'' None None
        (Some ''test'') True) = ''my_pipeline.my_dataset''
   \<and> DatasetConsumer.subscription
     (DatasetConsumer_init cfg ''my_dataset'' ''my_node'' ''my_pipeline'' None None
        (Some ''test'') True) = [''test.my_pipeline.my_dataset'']
   \<and> DatasetProducer.topic_name
     (DatasetProducer_init cfg ''my_dataset'' ''my_node'' ''my_pipeline'' None
        (Some ''test'') True) = ''test.my_pipeline.my_dataset''"
  by (simp add: DatasetConsumer_init_def DatasetProducer_init_def Let_def)

section \<open>The fake consumer's reads\<close>

text \<open>
  C8.  A fake consumer seeded with \<open>[a, b, c]\<close>: three successive calls of \<open>next\<close>
  return envelopes that carry \<open>a\<close>, \<open>b\<close> and \<open>c\<close>, in this order, each call leaving
  the rest of the list; the third call leaves the flag \<open>empty\<close> set; a fourth
  \<open>consume(how="next")\<close> returns \<open>None\<close>.  Each line starts from the consumer that
  the line before left.
\<close>

theorem fake_next_three_values:
  "FakeDatasetConsumer_next t1 (FakeDatasetConsumer_init d n p [a, b, c])
     = (Inr (Some (Envelope \<lparr> MessageData.timestamp = t1, MessageData.dataset = d,
            MessageData.source_node = n, MessageData.source_pipeline = p,
            MessageData.message = a \<rparr>)),
        FakeDatasetConsumer_init d n p [b, c])
   \<and> FakeDatasetConsumer_next t2 (FakeDatasetConsumer_init d n p [b, c])
     = (Inr (Some (Envelope \<lparr> MessageData.timestamp = t2, MessageData.dataset = d,
            MessageData.source_node = n, MessageData.source_pipeline = p,
            MessageData.message = b \<rparr>)),
        FakeDatasetConsumer_init d n p [c])
   \<and> FakeDatasetConsumer_next t3 (FakeDatasetConsumer_init d n p [c])
     = (Inr (Some (Envelope \<lparr> MessageData.timestamp = t3, MessageData.dataset = d,
            MessageData.source_node = n, MessageData.source_pipeline = p,
            MessageData.message = c \<rparr>)),
        (FakeDatasetConsumer_init d n p [])\<lparr>empty := True\<rparr>)
   \<and> FakeDatasetConsumer.empty ((FakeDatasetConsumer_init d n p [])\<lparr>empty := True\<rparr>) = True
   \<and> FakeDatasetConsumer_consume t4 ''next'' timeout
        ((FakeDatasetConsumer_init d n p [])\<lparr>empty := True\<rparr>)
     = (Inr None, (FakeDatasetConsumer_init d n p [])\<lparr>empty := True\<rparr>)"
  by (simp add: FakeDatasetConsumer_next_def FakeDatasetConsumer_consume_def
      FakeDatasetConsumer_init_def Let_def)

text \<open>
  C10.  In mode \<open>last\<close> the fake consumer returns the last element of its list as it
  is (\<open>Raw\<close>), not inside an envelope, and changes neither the list nor the flag
  \<open>empty\<close>; on an empty list it returns \<open>None\<close>.  In mode \<open>next\<close>, by contrast, the
  head of the list is removed and returned inside an envelope.
\<close>

theorem fake_consume_last_raw:
  "FakeDatasetConsumer_consume now ''last'' timeout self
     = (if FakeDatasetConsumer.values' self = [] then (Inr None, self)
        else (Inr (Some (Raw (last (FakeDatasetConsumer.values' self)))), self))
   \<and> FakeDatasetConsumer_consume now ''next'' timeout (self\<lparr>values' := v # vs\<rparr>)
     = (Inr (Some (Envelope
          \<lparr> MessageData.timestamp = now,
            MessageData.dataset = FakeDatasetConsumer.dataset_name self,
            MessageData.source_node = FakeDatasetConsumer.node_name self,
            MessageData.source_pipeline = FakeDatasetConsumer.source_pipeline self,
            MessageData.message = v \<rparr>)),
        self\<lparr>values' := vs,
             empty := (if vs = [] then True else FakeDatasetConsumer.empty self)\<rparr>)"
  by (simp add: FakeDatasetConsumer_consume_def Let_def)

section \<open>The timeout of \<open>last\<close>\<close>

text \<open>
  C9.  As amended: \<open>DatasetConsumer.last\<close> with a zero or negative timeout raises
  \<open>ValueError\<close> at once, the consumer and the world outside untouched;
  \<open>FakeDatasetConsumer.last\<close> ignores its timeout and returns the last element of
  its list, or \<open>None\<close> when the list is empty, whatever the timeout.
\<close>

theorem last_rejects_nonpositive_timeout:
  "(timeout \<le> 0 \<longrightarrow>
      DatasetConsumer_last L K timeout self s
        = Some (Inl (ValueError ''Timeout must be > 0 when consuming the last message.''),
                self, s))
   \<and> FakeDatasetConsumer_last now timeout' fake
        = (if FakeDatasetConsumer.values' fake = [] then (Inr None, fake)
           else (Inr (Some (Raw (last (FakeDatasetConsumer.values' fake)))), fake))"
  by (simp add: DatasetConsumer_last_def FakeDatasetConsumer_last_def
      FakeDatasetConsumer_consume_def Let_def)

text \<open>The theorem at the timeout \<open>0\<close>, for an idle world and a fake seeded with two values.\<close>

theorem last_rejects_nonpositive_timeout_witness:
  "(0::real) \<le> 0
   \<and> DatasetConsumer_last (plain :: (int, int json, int json) pylib) scripted 0
        (example_consumer)
        idle
      = Some (Inl (ValueError ''Timeout must be > 0 when consuming the last message.''),
              example_consumer,
              idle)
   \<and> FakeDatasetConsumer_last ''2024-01-01 00:00:00'' 0
        (FakeDatasetConsumer_init ''d'' ''n'' ''p'' [1, 2 :: int])
      = (Inr (Some (Raw 2)), FakeDatasetConsumer_init ''d'' ''n'' ''p'' [1, 2])"
  using last_rejects_nonpositive_timeout
    [of 0 "plain :: (int, int json, int json) pylib" scripted
      "example_consumer"
      "idle"
      "''2024-01-01 00:00:00''" 0 "FakeDatasetConsumer_init ''d'' ''n'' ''p'' [1, 2 :: int]"]
  by (simp add: FakeDatasetConsumer_init_def)

text \<open>
  The claim C9 as stated fails for the fake: \<open>last(timeout=0)\<close> on a fake consumer
  seeded with one value returns that value and raises nothing.
\<close>

theorem fake_last_accepts_zero_timeout:
  "FakeDatasetConsumer_last ''2024-01-01 00:00:00'' 0
     (FakeDatasetConsumer_init ''d'' ''n'' ''p'' [1 :: int])
   = (Inr (Some (Raw 1)), FakeDatasetConsumer_init ''d'' ''n'' ''p'' [1])"
  by (simp add: FakeDatasetConsumer_last_def FakeDatasetConsumer_consume_def
      FakeDatasetConsumer_init_def Let_def)

section \<open>Seeking to the latest offset\<close>

text \<open>
  The loop over the partitions gives each partition the offset before the high
  watermark read for it, or \<open>- 1\<close> when that watermark is the invalid offset.
\<close>

lemma seek_partitions_read_watermarks:
  "seek_partitions K c ps s =
     (case read_watermarks K c ps s of
        (Inl e, s') \<Rightarrow> (Inl e, s')
      | (Inr highs, s') \<Rightarrow>
          (Inr (map2 (\<lambda>tp high. tp\<lparr>offset := (if high = OFFSET_INVALID K then - 1 else high - 1)\<rparr>)
                  ps highs), s'))"
proof (induction ps arbitrary: s)
  case Nil
  show ?case by simp
next
  case (Cons tp rest)
  show ?case
    by (simp add: Cons.IH Let_def split: prod.split sum.split)
qed

lemma read_watermarks_length:
  "read_watermarks K c ps s = (Inr highs, s') \<Longrightarrow> length highs = length ps"
proof (induction ps arbitrary: s highs)
  case Nil
  then show ?case by simp
next
  case (Cons tp rest)
  then show ?case
    by (auto split: prod.splits sum.splits)
qed

text \<open>
  C4.  When the wait for an assignment ends with the partitions \<open>ps\<close> and the client
  reports the high watermarks \<open>highs\<close> for them, \<open>_update_offset_to_latest\<close>
  returns what \<open>assign\<close> returns for the list in which every partition of \<open>ps\<close>
  has the offset \<open>high - 1\<close>, or \<open>- 1\<close> where the watermark is \<open>OFFSET_INVALID\<close>:
  the invalid watermark raises nothing.
\<close>

theorem update_offset_seeks_before_high_watermark:
  assumes "assignment K s = (Inr ps0, s1)"
    and "await_assignment K ps0 s1 = Some (Inr ps, s2)"
    and "read_watermarks K (cached self) ps s2 = (Inr highs, s3)"
  shows "update_offset_to_latest K self s =
           Some (assign K
             (map2 (\<lambda>tp high. tp\<lparr>offset := (if high = OFFSET_INVALID K then - 1 else high - 1)\<rparr>)
                ps highs) s3)
         \<and> length highs = length ps"
  using assms
  by (simp add: update_offset_to_latest_def seek_partitions_read_watermarks
      read_watermarks_length)

text \<open>
  The theorem in the scripted world: no partition is assigned until one poll has been
  made, then two partitions, the first with the high watermark 42 and the second
  with the invalid offset.
\<close>

theorem update_offset_seeks_before_high_watermark_witness:
  "update_offset_to_latest (scripted :: ((int, int json, int json) script, int, int json, int json) Consumer)
     example_consumer
     \<lparr> polls = [], assignments = [Inr [], Inr [partition0, partition1]],
       watermarks = [Inr (0, 42), Inr (- 1001, - 1001)], assigned = [] \<rparr>
   = Some (Inr (),
       \<lparr> polls = [], assignments = [], watermarks = [],
         assigned = [[partition0\<lparr>offset := 41\<rparr>, partition1\<lparr>offset := - 1\<rparr>]] \<rparr>)"
proof -
  let ?K = "scripted :: ((int, int json, int json) script, int, int json, int json) Consumer"
  let ?s = "\<lparr> polls = [], assignments = [Inr [], Inr [partition0, partition1]],
       watermarks = [Inr (0, 42), Inr (- 1001, - 1001)], assigned = [] \<rparr> :: (int, int json, int json) script"
  let ?s1 = "?s\<lparr>assignments := [Inr [partition0, partition1]]\<rparr>"
  let ?s2 = "?s\<lparr>assignments := []\<rparr>"
  let ?s3 = "?s\<lparr>assignments := [], watermarks := []\<rparr>"
  let ?c = example_consumer
  have h1: "assignment ?K ?s = (Inr [], ?s1)"
    by (simp add: scripted_def)
  have h2: "await_assignment ?K [] ?s1 = Some (Inr [partition0, partition1], ?s2)"
    by (simp add: await_assignment.simps scripted_def)
  have h3: "read_watermarks ?K (cached ?c) [partition0, partition1] ?s2 = (Inr [42, - 1001], ?s3)"
    by (simp add: scripted_def)
  show ?thesis
    using update_offset_seeks_before_high_watermark [OF h1 h2 h3]
    by (simp add: scripted_def)
qed

section \<open>The flag \<open>cached\<close>\<close>

text \<open>
  C5.  As amended: the flag \<open>cached\<close> is false from construction, and a call of
  \<open>consume\<close> sets it exactly when its poll returns: in mode \<open>next\<close> without any
  offset-to-latest operation, in mode \<open>last\<close> after that operation has run.  A
  call that rejects its argument \<open>how\<close>, a call whose poll raises, in either mode,
  and a call in mode \<open>last\<close> whose offset-to-latest operation raises return the
  consumer as it was.  The cases are all the ways in which \<open>consume\<close> returns.
\<close>

theorem cached_set_exactly_when_poll_returns:
  "cached (DatasetConsumer_init cfg d n p params bs pfx hpp) = False
   \<and> (how \<noteq> ''next'' \<and> how \<noteq> ''last'' \<longrightarrow>
        consume L K how timeout self s
          = Some (Inl (ValueError (''Invalid how: '' @ how @ ''. Expected `next` or `last`.'')),
                  self, s))
   \<and> (poll K (timeout_or timeout (CONSUMER_TIMEOUT (DatasetConsumer.kafka_config self))) s
          = (Inr m, s1) \<longrightarrow>
        consume L K ''next'' timeout self s
          = Some (validate_message L (clock K s1) m, self\<lparr>cached := True\<rparr>, s1))
   \<and> (poll K (timeout_or timeout (CONSUMER_TIMEOUT (DatasetConsumer.kafka_config self))) s
          = (Inl e, s1) \<longrightarrow>
        consume L K ''next'' timeout self s = Some (Inl e, self, s1))
   \<and> (update_offset_to_latest K self s = Some (Inr u, s1) \<and>
        poll K (timeout_or timeout (CONSUMER_TIMEOUT (DatasetConsumer.kafka_config self))) s1
          = (Inr m, s2) \<longrightarrow>
        consume L K ''last'' timeout self s
          = Some (validate_message L (clock K s2) m, self\<lparr>cached := True\<rparr>, s2))
   \<and> (update_offset_to_latest K self s = Some (Inr u, s1) \<and>
        poll K (timeout_or timeout (CONSUMER_TIMEOUT (DatasetConsumer.kafka_config self))) s1
          = (Inl e, s2) \<longrightarrow>
        consume L K ''last'' timeout self s = Some (Inl e, self, s2))
   \<and> (update_offset_to_latest K self s = Some (Inl e, s1) \<longrightarrow>
        consume L K ''last'' timeout self s
          = Some (case e of KafkaError code \<Rightarrow> Inr None | _ \<Rightarrow> Inl e, self, s1))"
  apply (intro conjI impI)
  subgoal by (simp add: DatasetConsumer_init_def Let_def)
  subgoal by (simp add: consume_def)
  subgoal by (simp add: consume_def Let_def)
  subgoal by (simp add: consume_def Let_def)
  subgoal by (simp add: consume_def Let_def)
  subgoal by (simp add: consume_def Let_def)
  subgoal by (cases e) (simp_all add: consume_def Let_def)
  done

text \<open>
  The theorem in the scripted world, for a fresh consumer: a rejected mode; a read in
  mode \<open>next\<close> with nothing to poll, and one whose poll raises; a read in mode
  \<open>last\<close> of one partition with the high watermark 5, and one whose poll raises;
  reads in mode \<open>last\<close> whose watermark query raises a \<open>KafkaException\<close> and a
  \<open>KafkaError\<close>.
\<close>

theorem cached_set_exactly_when_poll_returns_witness:
  "cached example_consumer = False
   \<and> consume plain scripted ''bogus'' None example_consumer idle
       = Some (Inl (ValueError ''Invalid how: bogus. Expected `next` or `last`.''),
               example_consumer, idle)
   \<and> consume plain scripted ''next'' None example_consumer idle
       = Some (Inr None, example_consumer\<lparr>cached := True\<rparr>, idle)
   \<and> consume plain scripted ''next'' None example_consumer
         (idle\<lparr>polls := [Inl (KafkaException (- 195))]\<rparr>)
       = Some (Inl (KafkaException (- 195)), example_consumer, idle)
   \<and> consume plain scripted ''last'' (Some 2) example_consumer
         (idle\<lparr>polls := [Inr (Some (delivered (JStr ''x'')))],
               assignments := [Inr [partition0]], watermarks := [Inr (0, 5)]\<rparr>)
       = Some (Inr (Some (envelope_of (JStr ''x''))), example_consumer\<lparr>cached := True\<rparr>,
               idle\<lparr>assigned := [[partition0\<lparr>offset := 4\<rparr>]]\<rparr>)
   \<and> consume plain scripted ''last'' (Some 2) example_consumer
         (idle\<lparr>polls := [Inl (KafkaException (- 195))],
               assignments := [Inr [partition0]], watermarks := [Inr (0, 5)]\<rparr>)
       = Some (Inl (KafkaException (- 195)), example_consumer,
               idle\<lparr>assigned := [[partition0\<lparr>offset := 4\<rparr>]]\<rparr>)
   \<and> consume plain scripted ''last'' (Some 2) example_consumer
         (idle\<lparr>assignments := [Inr [partition0]], watermarks := [Inl (KafkaException (- 195))]\<rparr>)
       = Some (Inl (KafkaException (- 195)), example_consumer, idle)
   \<and> consume plain scripted ''last'' (Some 2) example_consumer
         (idle\<lparr>assignments := [Inr [partition0]], watermarks := [Inl (KafkaError (- 195))]\<rparr>)
       = Some (Inr None, example_consumer, idle)"
proof -
  let ?K = "scripted :: ((int, int json, int json) script, int, int json, int json) Consumer"
  let ?L = "plain :: (int, int json, int json) pylib"
  let ?c = example_consumer
  let ?t0 = "timeout_or None (CONSUMER_TIMEOUT (DatasetConsumer.kafka_config ?c))"
  let ?t2 = "timeout_or (Some 2) (CONSUMER_TIMEOUT (DatasetConsumer.kafka_config ?c))"
  note T = cached_set_exactly_when_poll_returns [where L = ?L and K = ?K and self = ?c]
  note rest = conjunct2 [THEN conjunct2]
  have a: "cached example_consumer = False"
    using T [THEN conjunct1, of example_config "''d''" "''n''" "''p''" None None None True]
    by (simp add: example_consumer_def)
  have "''bogus'' \<noteq> ''next'' \<and> ''bogus'' \<noteq> ''last''"
    by simp
  from T [THEN conjunct2, THEN conjunct1, rule_format, OF this]
  have b: "consume ?L ?K ''bogus'' None ?c idle
       = Some (Inl (ValueError ''Invalid how: bogus. Expected `next` or `last`.''), ?c, idle)"
    by simp
  have "poll ?K ?t0 idle = (Inr None, idle)"
    by (simp add: scripted_def idle_def)
  from T [THEN rest, THEN conjunct1, rule_format, OF this]
  have c: "consume ?L ?K ''next'' None ?c idle = Some (Inr None, ?c\<lparr>cached := True\<rparr>, idle)"
    by (simp add: validate_message_def)
  have "poll ?K ?t0 (idle\<lparr>polls := [Inl (KafkaException (- 195))]\<rparr>)
          = (Inl (KafkaException (- 195)), idle)"
    by (simp add: scripted_def idle_def)
  from T [THEN rest, THEN conjunct2, THEN conjunct1, rule_format, OF this]
  have d: "consume ?L ?K ''next'' None ?c (idle\<lparr>polls := [Inl (KafkaException (- 195))]\<rparr>)
             = Some (Inl (KafkaException (- 195)), ?c, idle)" .
  let ?s = "idle\<lparr>polls := [Inr (Some (delivered (JStr ''x'')))],
               assignments := [Inr [partition0]], watermarks := [Inr (0, 5)]\<rparr>"
  let ?s1 = "idle\<lparr>polls := [Inr (Some (delivered (JStr ''x'')))],
               assigned := [[partition0\<lparr>offset := 4\<rparr>]]\<rparr>"
  let ?s2 = "idle\<lparr>assigned := [[partition0\<lparr>offset := 4\<rparr>]]\<rparr>"
  have u: "update_offset_to_latest ?K ?c ?s = Some (Inr (), ?s1)"
    by (simp add: run_defs)
  have p: "poll ?K ?t2 ?s1 = (Inr (Some (delivered (JStr ''x''))), ?s2)"
    by (simp add: scripted_def idle_def)
  from T [THEN rest, THEN rest, THEN conjunct1, rule_format, OF conjI [OF u p]]
  have e: "consume ?L ?K ''last'' (Some 2) ?c ?s
             = Some (Inr (Some (envelope_of (JStr ''x''))), ?c\<lparr>cached := True\<rparr>, ?s2)"
    by (simp add: run_defs)
  let ?r = "idle\<lparr>polls := [Inl (KafkaException (- 195))],
               assignments := [Inr [partition0]], watermarks := [Inr (0, 5)]\<rparr>"
  let ?r1 = "idle\<lparr>polls := [Inl (KafkaException (- 195))],
               assigned := [[partition0\<lparr>offset := 4\<rparr>]]\<rparr>"
  have u': "update_offset_to_latest ?K ?c ?r = Some (Inr (), ?r1)"
    by (simp add: run_defs)
  have p': "poll ?K ?t2 ?r1 = (Inl (KafkaException (- 195)), ?s2)"
    by (simp add: scripted_def idle_def)
  from T [THEN rest, THEN rest, THEN conjunct2, THEN conjunct1, rule_format, OF conjI [OF u' p']]
  have f: "consume ?L ?K ''last'' (Some 2) ?c ?r = Some (Inl (KafkaException (- 195)), ?c, ?s2)" .
  have "update_offset_to_latest ?K ?c
          (idle\<lparr>assignments := [Inr [partition0]], watermarks := [Inl (KafkaException (- 195))]\<rparr>)
        = Some (Inl (KafkaException (- 195)), idle)"
    by (simp add: run_defs)
  from T [THEN rest, THEN rest, THEN rest, rule_format, OF this, of "Some 2"]
  have g: "consume ?L ?K ''last'' (Some 2) ?c
          (idle\<lparr>assignments := [Inr [partition0]], watermarks := [Inl (KafkaException (- 195))]\<rparr>)
        = Some (Inl (KafkaException (- 195)), ?c, idle)"
    by simp
  have "update_offset_to_latest ?K ?c
          (idle\<lparr>assignments := [Inr [partition0]], watermarks := [Inl (KafkaError (- 195))]\<rparr>)
        = Some (Inl (KafkaError (- 195)), idle)"
    by (simp add: run_defs)
  from T [THEN rest, THEN rest, THEN rest, rule_format, OF this, of "Some 2"]
  have h: "consume ?L ?K ''last'' (Some 2) ?c
          (idle\<lparr>assignments := [Inr [partition0]], watermarks := [Inl (KafkaError (- 195))]\<rparr>)
        = Some (Inr None, ?c, idle)"
    by simp
  show ?thesis
    using a b c d e f g h by (intro conjI)
qed

text \<open>
  The claim C5 as stated fails: a read in mode \<open>next\<close> by a fresh consumer sets the
  flag, and no offset-to-latest operation has run (nothing was assigned).
\<close>

theorem next_mode_sets_cached:
  "cached example_consumer = False
   \<and> consume plain scripted ''next'' None example_consumer idle
       = Some (Inr None, example_consumer\<lparr>cached := True\<rparr>, idle)
   \<and> assigned idle = []"
  by (simp add: run_defs)

section \<open>Errors of the broker in the blocking reads\<close>



section \<open>Reading until the end message\<close>

text \<open>
  As long as the messages that arrive differ from the end message, the loop of
  \<open>consume_all\<close> appends them to its list, in order, and skips the calls that
  return none.
\<close>

lemma consume_all_loop_arrivals:
  "arrivals L K n self s = Some (Inr rs, self1, s1) \<Longrightarrow>
   (\<And>w. Some w \<in> set rs \<Longrightarrow> \<not> py_eq L (MessageData.message w) end_message) \<Longrightarrow>
   consume_all_loop L K end_message acc self s
     = consume_all_loop L K end_message (acc @ present rs) self1 s1"
proof (induction n arbitrary: self s rs acc)
  case 0
  then show ?case by simp
next
  case (Suc n)
  from Suc.prems(1) obtain r ra selfa sa where
    step: "consume L K ''next'' None self s = Some (Inr r, selfa, sa)"
    and rest: "arrivals L K n selfa sa = Some (Inr ra, self1, s1)"
    and rs: "rs = r # ra"
    by (auto split: option.splits sum.splits prod.splits)
  have no_end: "\<And>w. Some w \<in> set ra \<Longrightarrow> \<not> py_eq L (MessageData.message w) end_message"
    using Suc.prems(2) rs by simp
  show ?case
  proof (cases r)
    case None
    have "consume_all_loop L K end_message acc self s
            = consume_all_loop L K end_message acc selfa sa"
      by (subst consume_all_loop.simps) (simp add: step None)
    also have "\<dots> = consume_all_loop L K end_message (acc @ present ra) self1 s1"
      by (rule Suc.IH [OF rest no_end])
    finally show ?thesis by (simp add: rs None)
  next
    case (Some w)
    have "\<not> py_eq L (MessageData.message w) end_message"
      using Suc.prems(2) rs Some by simp
    then have "consume_all_loop L K end_message acc self s
            = consume_all_loop L K end_message (acc @ [w]) selfa sa"
      by (subst consume_all_loop.simps) (simp add: step Some)
    also have "\<dots> = consume_all_loop L K end_message ((acc @ [w]) @ present ra) self1 s1"
      by (rule Suc.IH [OF rest no_end])
    finally show ?thesis by (simp add: rs Some)
  qed
qed

text \<open>
  C6.  When \<open>n\<close> calls of \<open>consume(how="next")\<close> deliver the results \<open>rs\<close>, none
  of them a message whose payload equals the end message, and the next call
  delivers a message whose payload equals it, \<open>consume_all\<close> returns the messages
  among \<open>rs\<close>, in the order of arrival and without the end message, and stops in
  the state that the call which delivered the end message left: nothing that
  follows is read.
\<close>

theorem consume_all_stops_at_end_message:
  assumes "arrivals L K n self s = Some (Inr rs, self1, s1)"
    and "\<And>w. Some w \<in> set rs \<Longrightarrow> \<not> py_eq L (MessageData.message w) end_message"
    and "consume L K ''next'' None self1 s1 = Some (Inr (Some e), self2, s2)"
    and "py_eq L (MessageData.message e) end_message"
  shows "consume_all L K end_message self s = Some (Inr (present rs), self2, s2)"
proof -
  have "consume_all L K end_message self s
          = consume_all_loop L K end_message ([] @ present rs) self1 s1"
    unfolding consume_all_def by (rule consume_all_loop_arrivals [OF assms(1) assms(2)])
  also have "\<dots> = Some (Inr (present rs), self2, s2)"
    by (subst consume_all_loop.simps) (simp add: assms(3) assms(4))
  finally show ?thesis .
qed

text \<open>
  The theorem in the scripted world, with the end message \<open>END\<close>: the messages
  \<open>x\<close> and \<open>2\<close> arrive, with an empty poll between them, then \<open>END\<close>, then
  \<open>z\<close>; the result holds \<open>x\<close> and \<open>2\<close>, and \<open>z\<close> is still to be polled.
\<close>

theorem consume_all_stops_at_end_message_witness:
  "consume_all plain scripted (JStr ''END'') example_consumer
     \<lparr> polls = [Inr (Some (delivered (JStr ''x''))), Inr None,
                Inr (Some (delivered (JNum 2))), Inr (Some (delivered (JStr ''END''))),
                Inr (Some (delivered (JStr ''z'')))],
       assignments = [], watermarks = [], assigned = [] \<rparr>
   = Some (Inr [envelope_of (JStr ''x''), envelope_of (JNum 2)],
       example_consumer\<lparr>cached := True\<rparr>,
       \<lparr> polls = [Inr (Some (delivered (JStr ''z'')))],
         assignments = [], watermarks = [], assigned = [] \<rparr>)"
proof -
  let ?s = "\<lparr> polls = [Inr (Some (delivered (JStr ''x''))), Inr None,
                Inr (Some (delivered (JNum 2))), Inr (Some (delivered (JStr ''END''))),
                Inr (Some (delivered (JStr ''z'')))],
       assignments = [], watermarks = [], assigned = [] \<rparr>"
  let ?s1 = "?s\<lparr>polls := [Inr (Some (delivered (JStr ''END''))),
                Inr (Some (delivered (JStr ''z'')))]\<rparr>"
  let ?s2 = "?s\<lparr>polls := [Inr (Some (delivered (JStr ''z'')))]\<rparr>"
  let ?c = "example_consumer\<lparr>cached := True\<rparr>"
  let ?rs = "[Some (envelope_of (JStr ''x'')), None, Some (envelope_of (JNum 2))]"
  have h1: "arrivals plain scripted 3 example_consumer ?s = Some (Inr ?rs, ?c, ?s1)"
    by (simp add: numeral_3_eq_3 run_defs)
  have h2: "\<not> py_eq plain (MessageData.message w) (JStr ''END'')" if "Some w \<in> set ?rs" for w
    using that by (auto simp: plain_def envelope_of_def)
  have h3: "consume plain scripted ''next'' None ?c ?s1
              = Some (Inr (Some (envelope_of (JStr ''END''))), ?c, ?s2)"
    by (simp add: run_defs)
  have h4: "py_eq plain (MessageData.message (envelope_of (JStr ''END''))) (JStr ''END'')"
    by (simp add: plain_def envelope_of_def)
  show ?thesis
    using consume_all_stops_at_end_message [OF h1 h2 h3 h4] by simp
qed

section \<open>Producing and consuming\<close>

text \<open>
  C2.  For a library whose JSON parser inverts its serialiser and whose UTF-8 decoder
  inverts its encoder: \<open>produce\<close> hands the topic name, the encoded key and the
  encoded envelope of the payload to the producer handle, and when the consumer's
  poll in mode \<open>next\<close> delivers a record with that value, \<open>consume\<close> returns the
  envelope built by the producer, whose field \<open>message\<close> is the payload.
\<close>

theorem produce_consume_roundtrip:
  assumes "\<And>v. json_loads L (json_dumps L v) = Some v"
    and "\<And>txt. decode_utf8 L (encode_utf8 L txt) = Some txt"
    and "producer_poll P 0 w = (Inr u, w1)"
    and "poll K (timeout_or timeout (CONSUMER_TIMEOUT (DatasetConsumer.kafka_config consumer))) s
           = (Inr (Some \<lparr> msg_value = Some (Bytes (wire_value L (producer_clock P w) producer p)),
                          msg_error = None \<rparr>), s1)"
  shows "produce L P producer p key w
           = (case producer_produce P (DatasetProducer.topic_name producer)
                     (map_option (encode_utf8 L) key)
                     (wire_value L (producer_clock P w) producer p) w1 of
                (Inl e, w2) \<Rightarrow> (Inl e, w2)
              | (Inr _, w2) \<Rightarrow> producer_flush P w2)
         \<and> consume L K ''next'' timeout consumer s
           = Some (Inr (Some \<lparr> MessageData.timestamp = producer_clock P w,
                               MessageData.dataset = DatasetProducer.dataset producer,
                               MessageData.source_node = DatasetProducer.source_node producer,
                               MessageData.source_pipeline = DatasetProducer.source_pipeline producer,
                               MessageData.message = p \<rparr>),
                   consumer\<lparr>cached := True\<rparr>, s1)"
proof
  show "produce L P producer p key w
           = (case producer_produce P (DatasetProducer.topic_name producer)
                     (map_option (encode_utf8 L) key)
                     (wire_value L (producer_clock P w) producer p) w1 of
                (Inl e, w2) \<Rightarrow> (Inl e, w2)
              | (Inr _, w2) \<Rightarrow> producer_flush P w2)"
    using assms(3) by (cases key) (simp_all add: produce_def Let_def)
next
  have "validate_message L now
          (Some \<lparr> msg_value = Some (Bytes (wire_value L (producer_clock P w) producer p)),
                  msg_error = None \<rparr>)
        = Inr (Some \<lparr> MessageData.timestamp = producer_clock P w,
                               MessageData.dataset = DatasetProducer.dataset producer,
                               MessageData.source_node = DatasetProducer.source_node producer,
                               MessageData.source_pipeline = DatasetProducer.source_pipeline producer,
                               MessageData.message = p \<rparr>)" for now
    by (simp add: validate_message_def wire_value_def assms(1) assms(2) parse_str_def wrap_def
        MessageData_of_def model_dump_def)
  then show "consume L K ''next'' timeout consumer s
           = Some (Inr (Some \<lparr> MessageData.timestamp = producer_clock P w,
                               MessageData.dataset = DatasetProducer.dataset producer,
                               MessageData.source_node = DatasetProducer.source_node producer,
                               MessageData.source_pipeline = DatasetProducer.source_pipeline producer,
                               MessageData.message = p \<rparr>),
                   consumer\<lparr>cached := True\<rparr>, s1)"
    using assms(4) by (simp add: consume_def Let_def)
qed

text \<open>
  The theorem for the library \<open>plain\<close>, a producer handle that logs what is
  published and a scripted consumer handle that delivers the published value.
\<close>

theorem produce_consume_roundtrip_witness:
  "produce plain recording example_producer (JObj [(''k'', JArr [JNum (1::int), JNull])])
       (Some (JStr ''key'')) []
     = (Inr (), [(''p.d'', Some (JStr ''key''),
           wire_value plain ''2024-01-01 00:00:00'' example_producer
             (JObj [(''k'', JArr [JNum 1, JNull])]))])
   \<and> consume plain scripted ''next'' None example_consumer
       \<lparr> polls = [Inr (Some \<lparr> msg_value = Some (Bytes
                    (wire_value plain ''2024-01-01 00:00:00'' example_producer
                       (JObj [(''k'', JArr [JNum 1, JNull])]))), msg_error = None \<rparr>)],
         assignments = [], watermarks = [], assigned = [] \<rparr>
     = Some (Inr (Some (envelope_of (JObj [(''k'', JArr [JNum 1, JNull])]))),
         example_consumer\<lparr>cached := True\<rparr>, idle)"
proof -
  let ?p = "JObj [(''k'', JArr [JNum 1, JNull])] :: int json"
  let ?s = "\<lparr> polls = [Inr (Some \<lparr> msg_value = Some (Bytes
                    (wire_value plain ''2024-01-01 00:00:00'' example_producer ?p)),
                    msg_error = None \<rparr>)],
         assignments = [], watermarks = [], assigned = [] \<rparr>"
  have h1: "json_loads plain (json_dumps plain v) = Some v" for v :: "int json"
    by (simp add: plain_def)
  have h2: "decode_utf8 plain (encode_utf8 plain t) = Some t" for t :: "int json"
    by (simp add: plain_def)
  have h3: "producer_poll recording 0 ([] :: (string \<times> int json option \<times> int json) list) = (Inr (), [])"
    by (simp add: recording_def)
  have h4: "poll scripted (timeout_or None (CONSUMER_TIMEOUT (DatasetConsumer.kafka_config example_consumer))) ?s
      = (Inr (Some \<lparr> msg_value = Some (Bytes (wire_value plain
             (producer_clock recording ([] :: (string \<times> int json option \<times> int json) list))
             example_producer ?p)), msg_error = None \<rparr>), idle)"
    by (simp add: scripted_def recording_def idle_def)
  note rt = produce_consume_roundtrip [of plain, OF h1 h2 h3 h4, of "Some (JStr ''key'')"]
  have clock: "producer_clock recording ([] :: (string \<times> int json option \<times> int json) list)
                 = ''2024-01-01 00:00:00''"
    by (simp add: recording_def)
  have a: "produce plain recording example_producer ?p (Some (JStr ''key'')) []
     = (Inr (), [(''p.d'', Some (JStr ''key''),
           wire_value plain ''2024-01-01 00:00:00'' example_producer ?p)])"
    unfolding rt [THEN conjunct1] clock
    by (simp add: recording_def example_producer_def DatasetProducer_init_def Let_def plain_def)
  have b: "consume plain scripted ''next'' None example_consumer ?s
     = Some (Inr (Some (envelope_of ?p)), example_consumer\<lparr>cached := True\<rparr>, idle)"
    unfolding rt [THEN conjunct2] clock
    by (simp add: envelope_of_def example_producer_def DatasetProducer_init_def Let_def)
  show ?thesis
    by (rule conjI [OF a b])
qed

end
